theory Spec2Isabelle
  imports Complex_Main
begin

section \<open>Values exchanged with the external services\<close>

text \<open>
  The agent moves JSON-shaped Python values between three external services. A parsed
  JSON document is a \<open>json_value\<close>; a Python \<open>dict\<close> with string keys is an association
  list in insertion order (a parsed dict has no duplicate keys). A Python \<open>float\<close> is
  carried as the rational value of its literal; the agent never computes with one.
\<close>

datatype json_value =
    JNull
  | JBool bool
  | JInt int
  | JFloat rat
  | JStr string
  | JArr "json_value list"
  | JObj "(string \<times> json_value) list"

type_synonym pydict = "(string \<times> json_value) list"

text \<open>
  A raised exception, with its class name and the text \<open>str(e)\<close>. \<open>PyException\<close> is
  an instance of the class \<open>Exception\<close> (what the stages and the libraries they call
  raise on failure); \<open>PyBaseException\<close> is an instance of \<open>BaseException\<close> outside
  \<open>Exception\<close>: \<open>KeyboardInterrupt\<close>, \<open>SystemExit\<close>, \<open>GeneratorExit\<close>. A handler
  \<open>except Exception\<close> catches the first kind only.
\<close>

datatype py_exception =
    PyException (exc_class: string) (exc_str: string)
  | PyBaseException (exc_class: string) (exc_str: string)

fun isinstance_Exception :: "py_exception \<Rightarrow> bool" where
  "isinstance_Exception (PyException _ _) = True"
| "isinstance_Exception (PyBaseException _ _) = False"

type_synonym 'a outcome = "py_exception + 'a"

text \<open>\<open>key in d\<close>, \<open>d[key]\<close> and \<open>d.get(key, default)\<close> on a dict.\<close>

definition dict_contains :: "pydict \<Rightarrow> string \<Rightarrow> bool" where
  "dict_contains d k = (k \<in> set (map fst d))"

definition dict_item :: "pydict \<Rightarrow> string \<Rightarrow> json_value outcome" where
  "dict_item d k =
     (case map_of d k of
        None \<Rightarrow> Inl (PyException ''KeyError'' ([CHR 0x27] @ k @ [CHR 0x27]))
      | Some v \<Rightarrow> Inr v)"

definition dict_get :: "pydict \<Rightarrow> string \<Rightarrow> json_value \<Rightarrow> json_value" where
  "dict_get d k dflt = (case map_of d k of None \<Rightarrow> dflt | Some v \<Rightarrow> v)"

fun type_name :: "json_value \<Rightarrow> string" where
  "type_name JNull = ''NoneType''"
| "type_name (JBool _) = ''bool''"
| "type_name (JInt _) = ''int''"
| "type_name (JFloat _) = ''float''"
| "type_name (JStr _) = ''str''"
| "type_name (JArr _) = ''list''"
| "type_name (JObj _) = ''dict''"

text \<open>
  \<open>x.get(key, default)\<close> on an arbitrary parsed value: only a dict has the method,
  anything else raises \<open>AttributeError\<close>.
\<close>

fun json_get :: "json_value \<Rightarrow> string \<Rightarrow> json_value \<Rightarrow> json_value outcome" where
  "json_get (JObj d) k dflt = Inr (dict_get d k dflt)"
| "json_get v k dflt =
     Inl (PyException ''AttributeError''
            ([CHR 0x27] @ type_name v @ [CHR 0x27] @ '' object has no attribute '' @
             [CHR 0x27] @ ''get'' @ [CHR 0x27]))"

text \<open>
  \<open>for doc in results\<close>: a list yields its elements, a dict its keys, a string its
  characters; every other parsed value is not iterable and raises \<open>TypeError\<close>.
\<close>

fun py_iter :: "json_value \<Rightarrow> json_value list outcome" where
  "py_iter (JArr xs) = Inr xs"
| "py_iter (JObj d) = Inr (map (\<lambda>kv. JStr (fst kv)) d)"
| "py_iter (JStr s) = Inr (map (\<lambda>c. JStr [c]) s)"
| "py_iter v =
     Inl (PyException ''TypeError''
            ([CHR 0x27] @ type_name v @ [CHR 0x27] @ '' object is not iterable''))"

section \<open>The external services\<close>

text \<open>Objects returned by the OpenAI client and by \<open>requests\<close>.\<close>

record embedding_item =
  embedding :: "rat list"

record embeddings_response =
  data :: "embedding_item list"

text \<open>The \<open>content\<close> of a completion message is a \<open>str\<close> or \<open>None\<close>.\<close>

record completion_message =
  content :: "string option"

record completion_choice =
  message :: completion_message

record chat_completion =
  choices :: "completion_choice list"

text \<open>
  The HTTP response object of \<open>requests\<close>; its two methods are given by what they do
  when called: \<open>raise_for_status()\<close> raises or returns, \<open>json()\<close> raises or yields the
  parsed body.
\<close>

record http_response =
  raise_for_status :: "py_exception option"
  json :: "json_value outcome"

type_synonym headers = "(string \<times> string option) list"

text \<open>
  The exception class of the web framework (a subclass of \<open>Exception\<close>), raised by the
  HTTP endpoint, and anything raised inside the endpoint.
\<close>

datatype http_exception = HTTPException (status_code: nat) (detail: json_value)

datatype raised = RaisedHTTP http_exception | RaisedPy py_exception

text \<open>
  Everything outside the repository that a request touches. Each service is a function
  of the arguments the agent passes and yields the service's answer or the exception it
  raises; within one run of \<open>chat\<close> each service is called at most once.
  \<open>json_dumps\<close> is \<open>json.dumps(_, indent=2)\<close> of the standard library, and
  \<open>http_exception_str\<close> is \<open>str\<close> of the framework's \<open>HTTPException\<close>.
\<close>

record services =
  embeddings_create :: "string \<Rightarrow> string \<Rightarrow> embeddings_response outcome"
  credential_get_token :: "string \<Rightarrow> string outcome"
  os_getenv :: "string \<Rightarrow> string option"
  requests_post :: "string \<Rightarrow> headers \<Rightarrow> json_value \<Rightarrow> http_response outcome"
  chat_completions_create :: "string \<Rightarrow> pydict list \<Rightarrow> rat \<Rightarrow> chat_completion outcome"
  json_dumps :: "json_value \<Rightarrow> string"
  http_exception_str :: "http_exception \<Rightarrow> string"

text \<open>The network calls a run makes, in order, with the arguments passed.\<close>

datatype call =
    EmbeddingsCreate string string
  | GetToken string
  | RequestsPost string headers json_value
  | ChatCompletionsCreate string "pydict list" rat

type_synonym 'a traced = "call list \<times> 'a outcome"

text \<open>
  Two statements in sequence inside a \<open>try\<close> block: the second runs only when the
  first did not raise, and the calls of both are recorded in order.
\<close>

definition and_then :: "'a traced \<Rightarrow> ('a \<Rightarrow> 'b traced) \<Rightarrow> 'b traced" where
  "and_then m f =
     (case m of
        (cs, Inl e) \<Rightarrow> (cs, Inl e)
      | (cs, Inr x) \<Rightarrow> (case f x of (cs', r) \<Rightarrow> (cs @ cs', r)))"

section \<open>The agent\<close>

text \<open>The configuration \<open>MultiModalRAGAgent.__init__\<close> leaves in \<open>self\<close>.\<close>

record agent =
  azure_ai_endpoint :: "string option"
  embedding_model :: string
  chat_model :: string
  search_endpoint :: string
  search_index :: string
  auth_mode :: string
  system_prompt :: string

text \<open>\<open>xs[0]\<close> on a Python list.\<close>

definition first_item :: "'a list \<Rightarrow> 'a outcome" where
  "first_item xs =
     (case xs of
        [] \<Rightarrow> Inl (PyException ''IndexError'' ''list index out of range'')
      | x # _ \<Rightarrow> Inr x)"

subsection \<open>Stage 1: \<open>_generate_embedding\<close>\<close>

definition agent_generate_embedding :: "services \<Rightarrow> agent \<Rightarrow> string \<Rightarrow> (rat list) traced" where
  "agent_generate_embedding sv ag text =
     ([EmbeddingsCreate text (embedding_model ag)],
      case embeddings_create sv text (embedding_model ag) of
        Inl e \<Rightarrow> Inl e
      | Inr response \<Rightarrow>
          (case first_item (data response) of
             Inl e \<Rightarrow> Inl e
           | Inr item \<Rightarrow> Inr (embedding item)))"

subsection \<open>Stage 2: \<open>_search_index\<close>\<close>

definition search_url :: "agent \<Rightarrow> string" where
  "search_url ag =
     search_endpoint ag @ ''/indexes/'' @ search_index ag @
     ''/docs/search?api-version=2023-11-01''"

definition search_headers :: "services \<Rightarrow> agent \<Rightarrow> headers traced" where
  "search_headers sv ag =
     (if auth_mode ag = ''entra'' then
        ([GetToken ''https://search.azure.com/.default''],
         case credential_get_token sv ''https://search.azure.com/.default'' of
           Inl e \<Rightarrow> Inl e
         | Inr token \<Rightarrow>
             Inr [(''Content-Type'', Some ''application/json''),
                  (''Authorization'', Some (''Bearer '' @ token))])
      else
        ([], Inr [(''Content-Type'', Some ''application/json''),
                  (''api-key'', os_getenv sv ''SEARCH_SERVICE_API_KEY'')]))"

definition search_body :: "rat list \<Rightarrow> int \<Rightarrow> json_value" where
  "search_body query_embedding top_k =
     JObj [(''count'', JBool True),
           (''select'', JStr ''content_text, document_title''),
           (''vectorQueries'',
              JArr [JObj [(''vector'', JArr (map JFloat query_embedding)),
                          (''k'', JInt top_k),
                          (''fields'', JStr ''content_embedding''),
                          (''kind'', JStr ''vector'')]])]"

text \<open>One element of the list comprehension: the three \<open>doc.get\<close> calls, in order.\<close>

definition search_record :: "json_value \<Rightarrow> pydict outcome" where
  "search_record doc =
     (case json_get doc ''content_text'' (JStr []) of
        Inl e \<Rightarrow> Inl e
      | Inr chunk \<Rightarrow>
          (case json_get doc ''document_title'' (JStr ''Unknown'') of
             Inl e \<Rightarrow> Inl e
           | Inr title \<Rightarrow>
               (case json_get doc ''@search.score'' (JInt 0) of
                  Inl e \<Rightarrow> Inl e
                | Inr score \<Rightarrow>
                    Inr [(''chunk'', chunk), (''title'', title), (''score'', score)])))"

fun search_records :: "json_value list \<Rightarrow> pydict list outcome" where
  "search_records [] = Inr []"
| "search_records (doc # docs) =
     (case search_record doc of
        Inl e \<Rightarrow> Inl e
      | Inr r \<Rightarrow>
          (case search_records docs of
             Inl e \<Rightarrow> Inl e
           | Inr rs \<Rightarrow> Inr (r # rs)))"

text \<open>What follows \<open>requests.post\<close>: the status check, the parse and the reshaping.\<close>

definition search_results :: "http_response \<Rightarrow> pydict list outcome" where
  "search_results response =
     (case raise_for_status response of
        Some e \<Rightarrow> Inl e
      | None \<Rightarrow>
          (case json response of
             Inl e \<Rightarrow> Inl e
           | Inr body \<Rightarrow>
               (case json_get body ''value'' (JArr []) of
                  Inl e \<Rightarrow> Inl e
                | Inr results \<Rightarrow>
                    (case py_iter results of
                       Inl e \<Rightarrow> Inl e
                     | Inr docs \<Rightarrow> search_records docs))))"

definition agent_search_index ::
    "services \<Rightarrow> agent \<Rightarrow> rat list \<Rightarrow> int \<Rightarrow> (pydict list) traced" where
  "agent_search_index sv ag query_embedding top_k =
     and_then (search_headers sv ag) (\<lambda>hdrs.
       ([RequestsPost (search_url ag) hdrs (search_body query_embedding top_k)],
        case requests_post sv (search_url ag) hdrs (search_body query_embedding top_k) of
          Inl e \<Rightarrow> Inl e
        | Inr response \<Rightarrow> search_results response))"

subsection \<open>Stage 3: \<open>_generate_response\<close>\<close>

definition user_message_text :: "services \<Rightarrow> string \<Rightarrow> pydict list \<Rightarrow> string" where
  "user_message_text sv query context =
     ''The user query is: '' @ query @ [CHR 0x0A] @ ''The context is: '' @
     json_dumps sv (JArr (map JObj context))"

definition prompt_messages :: "services \<Rightarrow> agent \<Rightarrow> string \<Rightarrow> pydict list \<Rightarrow> pydict list" where
  "prompt_messages sv ag query context =
     [[(''role'', JStr ''system''), (''content'', JStr (system_prompt ag))],
      [(''role'', JStr ''user''), (''content'', JStr (user_message_text sv query context))]]"

definition temperature :: rat where
  "temperature = 7 / 10"

definition agent_generate_response ::
    "services \<Rightarrow> agent \<Rightarrow> string \<Rightarrow> pydict list \<Rightarrow> (string option) traced" where
  "agent_generate_response sv ag query context =
     ([ChatCompletionsCreate (chat_model ag) (prompt_messages sv ag query context) temperature],
      case chat_completions_create sv (chat_model ag)
             (prompt_messages sv ag query context) temperature of
        Inl e \<Rightarrow> Inl e
      | Inr response \<Rightarrow>
          (case first_item (choices response) of
             Inl e \<Rightarrow> Inl e
           | Inr choice \<Rightarrow> Inr (content (message choice))))"

subsection \<open>The orchestrator: \<open>chat\<close>\<close>

text \<open>A Python value that is a \<open>str\<close> or \<open>None\<close>, as an entry of a dict.\<close>

definition json_of_content :: "string option \<Rightarrow> json_value" where
  "json_of_content c = (case c of None \<Rightarrow> JNull | Some s \<Rightarrow> JStr s)"

text \<open>The body of the \<open>try\<close> block.\<close>

definition chat_pipeline :: "services \<Rightarrow> agent \<Rightarrow> string \<Rightarrow> int \<Rightarrow> pydict traced" where
  "chat_pipeline sv ag user_message top_k =
     and_then (agent_generate_embedding sv ag user_message) (\<lambda>query_embedding.
     and_then (agent_search_index sv ag query_embedding top_k) (\<lambda>context.
     and_then (agent_generate_response sv ag user_message context) (\<lambda>response.
       ([], Inr [(''response'', json_of_content response),
                 (''sources'', JArr (map JObj context)),
                 (''query'', JStr user_message)]))))"

definition error_envelope :: "string \<Rightarrow> py_exception \<Rightarrow> pydict" where
  "error_envelope user_message e =
     [(''response'',
         JStr (''I encountered an error while processing your request: '' @ exc_str e)),
      (''sources'', JArr []),
      (''query'', JStr user_message),
      (''error'', JStr (exc_str e))]"

text \<open>
  \<open>chat\<close> with its \<open>except Exception\<close> handler: the calls made, and the dict returned
  (\<open>Inr\<close>) or the exception that leaves \<open>chat\<close> because the handler does not catch it
  (\<open>Inl\<close>).
\<close>

definition agent_chat :: "services \<Rightarrow> agent \<Rightarrow> string \<Rightarrow> int \<Rightarrow> pydict traced" where
  "agent_chat sv ag user_message top_k =
     (case chat_pipeline sv ag user_message top_k of
        (cs, Inr envelope) \<Rightarrow> (cs, Inr envelope)
      | (cs, Inl e) \<Rightarrow>
          (if isinstance_Exception e then (cs, Inr (error_envelope user_message e))
           else (cs, Inl e)))"

text \<open>The default of the \<open>top_k\<close> parameter of \<open>chat\<close>, \<open>_search_index\<close> and \<open>ChatRequest\<close>.\<close>

definition default_top_k :: int where
  "default_top_k = 5"

definition agent_chat_default :: "services \<Rightarrow> agent \<Rightarrow> string \<Rightarrow> pydict traced" where
  "agent_chat_default sv ag user_message = agent_chat sv ag user_message default_top_k"

section \<open>The HTTP endpoint \<open>POST /chat\<close>\<close>

record chat_request =
  request_message :: string
  request_top_k :: int

text \<open>
  The body of the handler's \<open>try\<close> block: the call of \<open>chat\<close>, the test
  \<open>"error" in result\<close> and the \<open>raise\<close> or \<open>return\<close>.
\<close>

definition endpoint_try :: "services \<Rightarrow> agent \<Rightarrow> chat_request \<Rightarrow> raised + pydict" where
  "endpoint_try sv ag request =
     (case snd (agent_chat sv ag (request_message request) (request_top_k request)) of
        Inl e \<Rightarrow> Inl (RaisedPy e)
      | Inr result \<Rightarrow>
          (if dict_contains result ''error'' then
             (case dict_item result ''error'' of
                Inl e \<Rightarrow> Inl (RaisedPy e)
              | Inr d \<Rightarrow> Inl (RaisedHTTP (HTTPException 500 d)))
           else Inr result))"

definition raised_is_Exception :: "raised \<Rightarrow> bool" where
  "raised_is_Exception r =
     (case r of RaisedHTTP h \<Rightarrow> True | RaisedPy e \<Rightarrow> isinstance_Exception e)"

definition str_raised :: "services \<Rightarrow> raised \<Rightarrow> string" where
  "str_raised sv r =
     (case r of RaisedHTTP h \<Rightarrow> http_exception_str sv h | RaisedPy e \<Rightarrow> exc_str e)"

text \<open>
  The handler with its \<open>except Exception\<close> clause, which also catches the
  \<open>HTTPException\<close> raised in the \<open>try\<close> block: \<open>Inl\<close> is what the handler raises,
  \<open>Inr\<close> the dict it returns.
\<close>

definition endpoint_chat :: "services \<Rightarrow> agent \<Rightarrow> chat_request \<Rightarrow> raised + pydict" where
  "endpoint_chat sv ag request =
     (case endpoint_try sv ag request of
        Inr result \<Rightarrow> Inr result
      | Inl r \<Rightarrow>
          (if raised_is_Exception r
           then Inl (RaisedHTTP (HTTPException 500 (JStr (str_raised sv r))))
           else Inl r))"

text \<open>
  The declaration \<open>response_model=ChatResponse\<close>: the dict the handler returns is
  validated against the fields \<open>response: str\<close>, \<open>sources: list\<close>, \<open>query: str\<close> and
  reduced to them. Of the values \<open>chat\<close> can put under \<open>response\<close>, a \<open>str\<close> passes and
  \<open>None\<close> does not.
\<close>

definition chat_response_model :: "pydict \<Rightarrow> pydict option" where
  "chat_response_model result =
     (case (map_of result ''response'', map_of result ''sources'', map_of result ''query'') of
        (Some (JStr r), Some (JArr s), Some (JStr q)) \<Rightarrow>
          Some [(''response'', JStr r), (''sources'', JArr s), (''query'', JStr q)]
      | _ \<Rightarrow> None)"

text \<open>
  What the client of \<open>POST /chat\<close> receives: status code and body. A returned dict that
  passes the response model is answered with 200; one that fails it is answered by the
  framework with 500 and no detail of the handler; an \<open>HTTPException\<close> is answered with
  its status code and its detail. An exception outside \<open>Exception\<close> leaves the handler
  and is not answered by this code.
\<close>

datatype http_reply = Reply (reply_status: nat) (reply_body: json_value) | Unanswered py_exception

definition post_chat :: "services \<Rightarrow> agent \<Rightarrow> chat_request \<Rightarrow> http_reply" where
  "post_chat sv ag request =
     (case endpoint_chat sv ag request of
        Inr result \<Rightarrow>
          (case chat_response_model result of
             Some body \<Rightarrow> Reply 200 (JObj body)
           | None \<Rightarrow> Reply 500 (JStr ''Internal Server Error''))
      | Inl (RaisedHTTP h) \<Rightarrow> Reply (status_code h) (JObj [(''detail'', detail h)])
      | Inl (RaisedPy e) \<Rightarrow> Unanswered e)"

section \<open>A concrete deployment\<close>

text \<open>
  Services that answer every request: the search service returns two documents, the
  second without title and score. Variants of it fail at one stage, or answer with a
  completion whose content is \<open>None\<close>.
\<close>

definition demo_agent :: agent where
  "demo_agent =
     \<lparr>azure_ai_endpoint = Some ''https://ai.example'',
      embedding_model = ''text-embedding-3-large'',
      chat_model = ''gpt-4o'',
      search_endpoint = ''https://search.example'',
      search_index = ''multi-modal-rag-index'',
      auth_mode = ''entra'',
      system_prompt = ''Answer strictly from the context provided.''\<rparr>"

definition demo_documents :: "json_value list" where
  "demo_documents =
     [JObj [(''content_text'', JStr ''BMW pursues circularity via...''),
            (''document_title'', JStr ''Sustainability Report 2023''),
            (''@search.score'', JFloat (87 / 100))],
      JObj [(''content_text'', JStr ''Natural rubber sourcing'')]]"

definition demo_sources :: "pydict list" where
  "demo_sources =
     [[(''chunk'', JStr ''BMW pursues circularity via...''),
       (''title'', JStr ''Sustainability Report 2023''),
       (''score'', JFloat (87 / 100))],
      [(''chunk'', JStr ''Natural rubber sourcing''),
       (''title'', JStr ''Unknown''),
       (''score'', JInt 0)]]"

definition demo_services :: services where
  "demo_services =
     \<lparr>embeddings_create =
        (\<lambda>text model. Inr \<lparr>data = [\<lparr>embedding = [1 / 2, 1 / 4]\<rparr>]\<rparr>),
      credential_get_token = (\<lambda>scope. Inr ''token''),
      os_getenv = (\<lambda>name. None),
      requests_post =
        (\<lambda>url hdrs body.
           Inr \<lparr>raise_for_status = None,
                json = Inr (JObj [(''value'', JArr demo_documents)])\<rparr>),
      chat_completions_create =
        (\<lambda>model messages temp.
           Inr \<lparr>choices = [\<lparr>message = \<lparr>content = Some ''BMW pursues circularity.''\<rparr>\<rparr>]\<rparr>),
      json_dumps = (\<lambda>v. ''[...]''),
      http_exception_str =
        (\<lambda>h. ''500: '' @ (case detail h of JStr s \<Rightarrow> s | _ \<Rightarrow> []))\<rparr>"

definition embed_down :: "py_exception \<Rightarrow> services" where
  "embed_down e = demo_services\<lparr>embeddings_create := (\<lambda>text model. Inl e)\<rparr>"

definition search_down :: "py_exception \<Rightarrow> services" where
  "search_down e = demo_services\<lparr>requests_post := (\<lambda>url hdrs body. Inl e)\<rparr>"

definition generate_down :: "py_exception \<Rightarrow> services" where
  "generate_down e =
     demo_services\<lparr>chat_completions_create := (\<lambda>model messages temp. Inl e)\<rparr>"

definition content_none :: services where
  "content_none =
     demo_services\<lparr>chat_completions_create :=
       (\<lambda>model messages temp. Inr \<lparr>choices = [\<lparr>message = \<lparr>content = None\<rparr>\<rparr>]\<rparr>)\<rparr>"

definition connection_error :: py_exception where
  "connection_error = PyException ''APIConnectionError'' ''Connection error.''"

definition keyboard_interrupt :: py_exception where
  "keyboard_interrupt = PyBaseException ''KeyboardInterrupt'' []"

definition demo_answer :: pydict where
  "demo_answer =
     [(''response'', JStr ''BMW pursues circularity.''),
      (''sources'', JArr (map JObj demo_sources)),
      (''query'', JStr ''What is circularity?'')]"

section \<open>How \<open>chat\<close> depends on the three stages\<close>

lemma chat_embed_raises:
  assumes "snd (agent_generate_embedding sv ag m) = Inl e"
  shows "agent_chat sv ag m k =
           (fst (agent_generate_embedding sv ag m),
            if isinstance_Exception e then Inr (error_envelope m e) else Inl e)"
  using assms
  by (cases "agent_generate_embedding sv ag m")
     (simp add: agent_chat_def chat_pipeline_def and_then_def)

lemma chat_search_raises:
  assumes "snd (agent_generate_embedding sv ag m) = Inr qe"
    and "snd (agent_search_index sv ag qe k) = Inl e"
  shows "agent_chat sv ag m k =
           (fst (agent_generate_embedding sv ag m) @ fst (agent_search_index sv ag qe k),
            if isinstance_Exception e then Inr (error_envelope m e) else Inl e)"
  using assms
  by (cases "agent_generate_embedding sv ag m"; cases "agent_search_index sv ag qe k")
     (simp add: agent_chat_def chat_pipeline_def and_then_def)

lemma chat_generate_raises:
  assumes "snd (agent_generate_embedding sv ag m) = Inr qe"
    and "snd (agent_search_index sv ag qe k) = Inr ctx"
    and "snd (agent_generate_response sv ag m ctx) = Inl e"
  shows "agent_chat sv ag m k =
           (fst (agent_generate_embedding sv ag m) @ fst (agent_search_index sv ag qe k) @
              fst (agent_generate_response sv ag m ctx),
            if isinstance_Exception e then Inr (error_envelope m e) else Inl e)"
  using assms
  by (cases "agent_generate_embedding sv ag m"; cases "agent_search_index sv ag qe k";
      cases "agent_generate_response sv ag m ctx")
     (simp add: agent_chat_def chat_pipeline_def and_then_def)

lemma chat_all_succeed:
  assumes "snd (agent_generate_embedding sv ag m) = Inr qe"
    and "snd (agent_search_index sv ag qe k) = Inr ctx"
    and "snd (agent_generate_response sv ag m ctx) = Inr r"
  shows "agent_chat sv ag m k =
           (fst (agent_generate_embedding sv ag m) @ fst (agent_search_index sv ag qe k) @
              fst (agent_generate_response sv ag m ctx),
            Inr [(''response'', json_of_content r),
                 (''sources'', JArr (map JObj ctx)),
                 (''query'', JStr m)])"
  using assms
  by (cases "agent_generate_embedding sv ag m"; cases "agent_search_index sv ag qe k";
      cases "agent_generate_response sv ag m ctx")
     (simp add: agent_chat_def chat_pipeline_def and_then_def)

text \<open>Every run falls under exactly one of the four lemmas above.\<close>

lemma chat_cases:
  obtains (embed) e where "snd (agent_generate_embedding sv ag m) = Inl e"
  | (search) qe e where "snd (agent_generate_embedding sv ag m) = Inr qe"
      and "snd (agent_search_index sv ag qe k) = Inl e"
  | (generate) qe ctx e where "snd (agent_generate_embedding sv ag m) = Inr qe"
      and "snd (agent_search_index sv ag qe k) = Inr ctx"
      and "snd (agent_generate_response sv ag m ctx) = Inl e"
  | (success) qe ctx r where "snd (agent_generate_embedding sv ag m) = Inr qe"
      and "snd (agent_search_index sv ag qe k) = Inr ctx"
      and "snd (agent_generate_response sv ag m ctx) = Inr r"
proof (cases "snd (agent_generate_embedding sv ag m)")
  case (Inl e)
  then show ?thesis by (rule embed)
next
  case qe: (Inr qe)
  show ?thesis
  proof (cases "snd (agent_search_index sv ag qe k)")
    case (Inl e)
    with qe show ?thesis by (rule search)
  next
    case ctx: (Inr ctx)
    show ?thesis
    proof (cases "snd (agent_generate_response sv ag m ctx)")
      case (Inl e)
      with qe ctx show ?thesis by (rule generate)
    next
      case (Inr r)
      with qe ctx show ?thesis by (rule success)
    qed
  qed
qed

text \<open>The demo deployment, stage by stage.\<close>

lemma demo_embedding:
  "agent_generate_embedding demo_services demo_agent m =
     ([EmbeddingsCreate m ''text-embedding-3-large''], Inr [1 / 2, 1 / 4])"
  by (simp add: agent_generate_embedding_def demo_services_def demo_agent_def first_item_def)

lemma demo_search_records: "search_records demo_documents = Inr demo_sources"
  by (simp add: demo_documents_def demo_sources_def search_record_def dict_get_def)

lemma demo_search:
  "snd (agent_search_index demo_services demo_agent qe k) = Inr demo_sources"
  by (simp add: agent_search_index_def and_then_def search_headers_def search_results_def
      demo_services_def demo_agent_def dict_get_def demo_search_records)

lemma demo_response:
  "snd (agent_generate_response demo_services demo_agent m ctx) =
     Inr (Some ''BMW pursues circularity.'')"
  by (simp add: agent_generate_response_def demo_services_def first_item_def)

lemma demo_chat:
  "snd (agent_chat demo_services demo_agent m k) =
     Inr [(''response'', JStr ''BMW pursues circularity.''),
          (''sources'', JArr (map JObj demo_sources)),
          (''query'', JStr m)]"
  by (simp add: chat_all_succeed [where qe = "[1 / 2, 1 / 4]" and ctx = demo_sources
        and r = "Some ''BMW pursues circularity.''"] demo_embedding demo_search demo_response
      json_of_content_def)

lemma embed_down_embedding:
  "agent_generate_embedding (embed_down e) demo_agent m =
     ([EmbeddingsCreate m ''text-embedding-3-large''], Inl e)"
  by (simp add: agent_generate_embedding_def embed_down_def demo_services_def demo_agent_def)

lemma embed_down_chat:
  "agent_chat (embed_down e) demo_agent m k =
     ([EmbeddingsCreate m ''text-embedding-3-large''],
      if isinstance_Exception e then Inr (error_envelope m e) else Inl e)"
  by (simp add: chat_embed_raises [where e = e] embed_down_embedding)

text \<open>The search stage keeps one record per document the service returned.\<close>

lemma search_records_length:
  "search_records docs = Inr rs \<Longrightarrow> length rs = length docs"
  by (induction docs arbitrary: rs) (auto split: sum.splits)

lemma search_index_returns:
  assumes "snd (agent_search_index sv ag qe k) = Inr ctx"
  obtains hdrs response body results docs where
    "snd (search_headers sv ag) = Inr hdrs"
    "requests_post sv (search_url ag) hdrs (search_body qe k) = Inr response"
    "raise_for_status response = None"
    "json response = Inr body"
    "json_get body ''value'' (JArr []) = Inr results"
    "py_iter results = Inr docs"
    "search_records docs = Inr ctx"
  using assms
  by (cases "search_headers sv ag")
     (auto simp: agent_search_index_def and_then_def search_results_def
           split: sum.splits option.splits)

section \<open>Sources are the retrieval result\<close>

text \<open>
  C1. Whenever all three stages succeed, \<open>chat\<close> returns a dict whose \<open>sources\<close> entry is
  the list the search stage produced, element for element and in the same order, and
  that same list is what the generation stage was called with (the last call of the run
  is the completion request built from it).
\<close>

theorem chat_sources_are_search_result:
  assumes "snd (agent_generate_embedding sv ag m) = Inr qe"
    and "snd (agent_search_index sv ag qe k) = Inr ctx"
    and "snd (agent_generate_response sv ag m ctx) = Inr r"
  shows "(\<exists>env. snd (agent_chat sv ag m k) = Inr env \<and>
            dict_item env ''sources'' = Inr (JArr (map JObj ctx))) \<and>
         last (fst (agent_chat sv ag m k)) =
           ChatCompletionsCreate (chat_model ag) (prompt_messages sv ag m ctx) temperature"
  by (simp add: chat_all_succeed [OF assms] dict_item_def agent_generate_response_def)

theorem chat_sources_are_search_result_witness:
  "snd (agent_generate_embedding demo_services demo_agent ''What is circularity?'') =
     Inr [1 / 2, 1 / 4] \<and>
   snd (agent_search_index demo_services demo_agent [1 / 2, 1 / 4] 5) = Inr demo_sources \<and>
   snd (agent_generate_response demo_services demo_agent ''What is circularity?'' demo_sources) =
     Inr (Some ''BMW pursues circularity.'') \<and>
   snd (agent_chat demo_services demo_agent ''What is circularity?'' 5) = Inr demo_answer \<and>
   dict_item demo_answer ''sources'' = Inr (JArr (map JObj demo_sources)) \<and>
   last (fst (agent_chat demo_services demo_agent ''What is circularity?'' 5)) =
     ChatCompletionsCreate ''gpt-4o''
       (prompt_messages demo_services demo_agent ''What is circularity?'' demo_sources)
       temperature"
proof -
  have e: "snd (agent_generate_embedding demo_services demo_agent ''What is circularity?'') =
             Inr [1 / 2, 1 / 4]"
    by (simp add: demo_embedding)
  have s: "snd (agent_search_index demo_services demo_agent [1 / 2, 1 / 4] 5) = Inr demo_sources"
    by (rule demo_search)
  have g: "snd (agent_generate_response demo_services demo_agent ''What is circularity?''
                  demo_sources) = Inr (Some ''BMW pursues circularity.'')"
    by (rule demo_response)
  have c: "snd (agent_chat demo_services demo_agent ''What is circularity?'' 5) = Inr demo_answer"
    by (simp add: demo_chat demo_answer_def)
  show ?thesis
    using chat_sources_are_search_result [OF e s g] e s g c
    by (auto simp: demo_agent_def)
qed

section \<open>Stage failures become a degraded answer\<close>

text \<open>
  The claim that \<open>chat\<close> catches every exception a stage raises and never lets one
  reach its caller fails: the handler is \<open>except Exception\<close>, so a \<open>KeyboardInterrupt\<close>
  raised while the embedding stage runs leaves \<open>chat\<close>.
\<close>

theorem chat_propagates_keyboard_interrupt:
  "snd (agent_generate_embedding (embed_down (PyBaseException ''KeyboardInterrupt'' []))
          demo_agent ''hello'') = Inl (PyBaseException ''KeyboardInterrupt'' []) \<and>
   snd (agent_chat (embed_down (PyBaseException ''KeyboardInterrupt'' [])) demo_agent
          ''hello'' 5) = Inl (PyBaseException ''KeyboardInterrupt'' [])"
  by (simp add: embed_down_chat embed_down_embedding)

text \<open>
  C2 (amended). For every user message and every exception of class \<open>Exception\<close> raised
  by the embedding, the search or the generation stage, \<open>chat\<close> catches it and returns a
  dict whose \<open>sources\<close> is the empty list, whose \<open>response\<close> is the apology followed by
  the exception's text, and which carries that text under \<open>error\<close>; such an exception
  never reaches the caller. An exception outside \<open>Exception\<close> is not caught and
  leaves \<open>chat\<close>.
\<close>

theorem chat_catches_stage_exception:
  assumes "snd (agent_generate_embedding sv ag m) = Inl e \<or>
           (\<exists>qe. snd (agent_generate_embedding sv ag m) = Inr qe \<and>
              (snd (agent_search_index sv ag qe k) = Inl e \<or>
               (\<exists>ctx. snd (agent_search_index sv ag qe k) = Inr ctx \<and>
                  snd (agent_generate_response sv ag m ctx) = Inl e)))"
  shows "(isinstance_Exception e \<longrightarrow>
            snd (agent_chat sv ag m k) =
              Inr [(''response'',
                      JStr (''I encountered an error while processing your request: '' @
                            exc_str e)),
                   (''sources'', JArr []),
                   (''query'', JStr m),
                   (''error'', JStr (exc_str e))]) \<and>
         (\<not> isinstance_Exception e \<longrightarrow> snd (agent_chat sv ag m k) = Inl e)"
  using assms
  by (auto simp: chat_embed_raises chat_search_raises chat_generate_raises error_envelope_def)

theorem chat_catches_stage_exception_witness:
  "snd (agent_generate_embedding (embed_down connection_error) demo_agent ''hello'') =
     Inl connection_error \<and>
   isinstance_Exception connection_error \<and>
   snd (agent_chat (embed_down connection_error) demo_agent ''hello'' 5) =
     Inr [(''response'',
             JStr ''I encountered an error while processing your request: Connection error.''),
          (''sources'', JArr []),
          (''query'', JStr ''hello''),
          (''error'', JStr ''Connection error.'')] \<and>
   snd (agent_search_index (search_down connection_error) demo_agent [1 / 2, 1 / 4] 5) =
     Inl connection_error \<and>
   snd (agent_chat (search_down connection_error) demo_agent ''hello'' 5) =
     snd (agent_chat (embed_down connection_error) demo_agent ''hello'' 5) \<and>
   snd (agent_generate_response (generate_down connection_error) demo_agent ''hello''
          demo_sources) = Inl connection_error \<and>
   snd (agent_chat (generate_down connection_error) demo_agent ''hello'' 5) =
     snd (agent_chat (embed_down connection_error) demo_agent ''hello'' 5) \<and>
   snd (agent_generate_embedding (embed_down keyboard_interrupt) demo_agent ''hello'') =
     Inl keyboard_interrupt \<and>
   \<not> isinstance_Exception keyboard_interrupt \<and>
   snd (agent_chat (embed_down keyboard_interrupt) demo_agent ''hello'' 5) =
     Inl keyboard_interrupt"
proof -
  let ?e = connection_error
  let ?dict = "[(''response'',
                   JStr (''I encountered an error while processing your request: '' @
                         exc_str ?e)),
                (''sources'', JArr []), (''query'', JStr ''hello''),
                (''error'', JStr (exc_str ?e))]"
  have caught: "isinstance_Exception ?e"
    by (simp add: connection_error_def)
  have e1: "snd (agent_generate_embedding (embed_down ?e) demo_agent ''hello'') = Inl ?e"
    by (simp add: embed_down_embedding)
  have e2: "snd (agent_generate_embedding (search_down ?e) demo_agent ''hello'') =
              Inr [1 / 2, 1 / 4]"
    by (simp add: agent_generate_embedding_def search_down_def demo_services_def first_item_def)
  have s2: "snd (agent_search_index (search_down ?e) demo_agent [1 / 2, 1 / 4] 5) = Inl ?e"
    by (simp add: agent_search_index_def and_then_def search_headers_def search_down_def
        demo_services_def demo_agent_def)
  have e3: "snd (agent_generate_embedding (generate_down ?e) demo_agent ''hello'') =
              Inr [1 / 2, 1 / 4]"
    by (simp add: agent_generate_embedding_def generate_down_def demo_services_def
        first_item_def)
  have s3: "snd (agent_search_index (generate_down ?e) demo_agent [1 / 2, 1 / 4] 5) =
              Inr demo_sources"
    by (simp add: agent_search_index_def and_then_def search_headers_def search_results_def
        generate_down_def demo_services_def demo_agent_def dict_get_def demo_search_records)
  have g3: "snd (agent_generate_response (generate_down ?e) demo_agent ''hello'' demo_sources) =
              Inl ?e"
    by (simp add: agent_generate_response_def generate_down_def demo_services_def)
  have k1: "snd (agent_generate_embedding (embed_down keyboard_interrupt) demo_agent
                   ''hello'') = Inl keyboard_interrupt"
    by (simp add: embed_down_embedding)
  have leaves: "\<not> isinstance_Exception keyboard_interrupt"
    by (simp add: keyboard_interrupt_def)
  have c1: "snd (agent_chat (embed_down ?e) demo_agent ''hello'' 5) = Inr ?dict"
    using chat_catches_stage_exception
      [where sv = "embed_down ?e" and ag = demo_agent and m = "''hello''" and e = ?e and k = 5]
      e1 caught
    by blast
  have c2: "snd (agent_chat (search_down ?e) demo_agent ''hello'' 5) = Inr ?dict"
    using chat_catches_stage_exception
      [where sv = "search_down ?e" and ag = demo_agent and m = "''hello''" and e = ?e and k = 5]
      e2 s2 caught
    by blast
  have c3: "snd (agent_chat (generate_down ?e) demo_agent ''hello'' 5) = Inr ?dict"
    using chat_catches_stage_exception
      [where sv = "generate_down ?e" and ag = demo_agent and m = "''hello''" and e = ?e
        and k = 5]
      e3 s3 g3 caught
    by blast
  have c4: "snd (agent_chat (embed_down keyboard_interrupt) demo_agent ''hello'' 5) =
              Inl keyboard_interrupt"
    using chat_catches_stage_exception
      [where sv = "embed_down keyboard_interrupt" and ag = demo_agent and m = "''hello''"
        and e = keyboard_interrupt and k = 5]
      k1 leaves
    by blast
  have "?dict =
          [(''response'',
              JStr ''I encountered an error while processing your request: Connection error.''),
           (''sources'', JArr []), (''query'', JStr ''hello''),
           (''error'', JStr ''Connection error.'')]"
    by (simp add: connection_error_def)
  with e1 s2 g3 k1 caught leaves c1 c2 c3 c4 show ?thesis
    by simp
qed

section \<open>The query echo\<close>

text \<open>
  C3. For every input message, the \<open>query\<close> entry of the dict returned by \<open>chat\<close> is the
  input message itself, in the success case and in the error case alike; and \<open>chat\<close>
  returns a dict in every run but one in which a stage raised an exception outside
  \<open>Exception\<close>.
\<close>

theorem chat_query_echo:
  "(\<forall>env. snd (agent_chat sv ag user_message top_k) = Inr env \<longrightarrow>
      dict_item env ''query'' = Inr (JStr user_message)) \<and>
   (\<forall>e. snd (agent_chat sv ag user_message top_k) = Inl e \<longrightarrow>
      \<not> isinstance_Exception e \<and> snd (chat_pipeline sv ag user_message top_k) = Inl e)"
  by (cases "chat_pipeline sv ag user_message top_k")
     (auto simp: agent_chat_def chat_pipeline_def and_then_def error_envelope_def dict_item_def
        split: prod.splits sum.splits if_splits)

theorem chat_query_echo_witness:
  "snd (agent_chat demo_services demo_agent ''What is circularity?'' 5) = Inr demo_answer \<and>
   dict_item demo_answer ''query'' = Inr (JStr ''What is circularity?'') \<and>
   snd (agent_chat (embed_down connection_error) demo_agent ''What is circularity?'' 5) =
     Inr (error_envelope ''What is circularity?'' connection_error) \<and>
   dict_item (error_envelope ''What is circularity?'' connection_error) ''query'' =
     Inr (JStr ''What is circularity?'') \<and>
   snd (agent_chat (embed_down keyboard_interrupt) demo_agent ''What is circularity?'' 5) =
     Inl keyboard_interrupt \<and>
   snd (chat_pipeline (embed_down keyboard_interrupt) demo_agent ''What is circularity?'' 5) =
     Inl keyboard_interrupt"
proof -
  have good: "snd (agent_chat demo_services demo_agent ''What is circularity?'' 5) =
                Inr demo_answer"
    by (simp add: demo_chat demo_answer_def)
  have bad: "snd (agent_chat (embed_down connection_error) demo_agent
                    ''What is circularity?'' 5) =
               Inr (error_envelope ''What is circularity?'' connection_error)"
    by (simp add: embed_down_chat connection_error_def)
  have gone: "snd (agent_chat (embed_down keyboard_interrupt) demo_agent
                     ''What is circularity?'' 5) = Inl keyboard_interrupt"
    by (simp add: embed_down_chat keyboard_interrupt_def)
  from chat_query_echo [of demo_services demo_agent "''What is circularity?''" 5,
      THEN conjunct1, rule_format, OF good]
  have q1: "dict_item demo_answer ''query'' = Inr (JStr ''What is circularity?'')" .
  from chat_query_echo [of "embed_down connection_error" demo_agent
      "''What is circularity?''" 5, THEN conjunct1, rule_format, OF bad]
  have q2: "dict_item (error_envelope ''What is circularity?'' connection_error) ''query'' =
              Inr (JStr ''What is circularity?'')" .
  from chat_query_echo [of "embed_down keyboard_interrupt" demo_agent
      "''What is circularity?''" 5, THEN conjunct2, rule_format, OF gone]
  have q3: "snd (chat_pipeline (embed_down keyboard_interrupt) demo_agent
                   ''What is circularity?'' 5) = Inl keyboard_interrupt"
    by simp
  from good bad gone q1 q2 q3 show ?thesis
    by simp
qed

section \<open>The number of sources\<close>

text \<open>
  The claim that \<open>sources\<close> never has more than \<open>top_k\<close> elements fails: the agent
  sends \<open>top_k\<close> to the search service as \<open>k\<close> and keeps every document of the reply,
  so a reply of two documents to a request for one yields two sources; and \<open>top_k\<close> is
  any integer, so for \<open>top_k = -1\<close> even the empty list of a failed run is too long.
\<close>

theorem chat_sources_exceed_top_k:
  "snd (agent_chat demo_services demo_agent ''What is circularity?'' 1) = Inr demo_answer \<and>
   dict_item demo_answer ''sources'' = Inr (JArr (map JObj demo_sources)) \<and>
   \<not> int (length (map JObj demo_sources)) \<le> 1 \<and>
   snd (agent_chat (search_down connection_error) demo_agent ''What is circularity?'' (- 1)) =
     Inr (error_envelope ''What is circularity?'' connection_error) \<and>
   dict_item (error_envelope ''What is circularity?'' connection_error) ''sources'' =
     Inr (JArr []) \<and>
   \<not> int (length ([] :: json_value list)) \<le> - 1"
proof -
  have "snd (agent_chat (search_down connection_error) demo_agent
               ''What is circularity?'' (- 1)) =
          Inr (error_envelope ''What is circularity?'' connection_error)"
    by (simp add: agent_chat_def chat_pipeline_def and_then_def agent_generate_embedding_def
        agent_search_index_def search_headers_def search_down_def demo_services_def
        demo_agent_def first_item_def connection_error_def)
  then show ?thesis
    by (simp add: demo_chat demo_answer_def dict_item_def error_envelope_def demo_sources_def)
qed

text \<open>
  C4 (amended). For every query and every limit \<open>top_k \<ge> 0\<close>: if the search service
  answers a request carrying \<open>k = top_k\<close> with at most \<open>top_k\<close> documents, then
  \<open>sources\<close> in the dict \<open>chat\<close> returns is a list of at most \<open>top_k\<close> elements (the empty
  list when a stage fails). The agent itself does not truncate. When no limit is
  supplied, \<open>top_k\<close> is 5.
\<close>

theorem chat_sources_length:
  assumes service_honours_k:
      "\<And>url hdrs qe response body results docs.
         requests_post sv url hdrs (search_body qe k) = Inr response \<Longrightarrow>
         json response = Inr body \<Longrightarrow>
         json_get body ''value'' (JArr []) = Inr results \<Longrightarrow>
         py_iter results = Inr docs \<Longrightarrow>
         int (length docs) \<le> k"
    and "0 \<le> k"
  shows "(\<forall>env. snd (agent_chat sv ag m k) = Inr env \<longrightarrow>
            (\<exists>xs. dict_item env ''sources'' = Inr (JArr xs) \<and> int (length xs) \<le> k)) \<and>
         agent_chat_default sv ag m = agent_chat sv ag m 5"
proof -
  have "\<exists>xs. dict_item env ''sources'' = Inr (JArr xs) \<and> int (length xs) \<le> k"
    if returned: "snd (agent_chat sv ag m k) = Inr env" for env
  proof (cases rule: chat_cases [where sv = sv and ag = ag and m = m and k = k])
    case (embed e)
    with \<open>0 \<le> k\<close> returned show ?thesis
      by (auto simp: chat_embed_raises error_envelope_def dict_item_def split: if_splits)
  next
    case (search qe e)
    with \<open>0 \<le> k\<close> returned show ?thesis
      by (auto simp: chat_search_raises error_envelope_def dict_item_def split: if_splits)
  next
    case (generate qe ctx e)
    with \<open>0 \<le> k\<close> returned show ?thesis
      by (auto simp: chat_generate_raises error_envelope_def dict_item_def split: if_splits)
  next
    case (success qe ctx r)
    from success(2) obtain hdrs response body results docs where
      "requests_post sv (search_url ag) hdrs (search_body qe k) = Inr response"
      "json response = Inr body"
      "json_get body ''value'' (JArr []) = Inr results"
      "py_iter results = Inr docs"
      "search_records docs = Inr ctx"
      by (rule search_index_returns)
    then have "int (length docs) \<le> k" and "length ctx = length docs"
      using service_honours_k search_records_length by blast+
    with success returned show ?thesis
      by (auto simp: chat_all_succeed dict_item_def)
  qed
  then show ?thesis
    by (simp add: agent_chat_default_def default_top_k_def)
qed

theorem chat_sources_length_witness:
  "(0::int) \<le> 5 \<and>
   snd (agent_chat demo_services demo_agent ''What is circularity?'' 5) = Inr demo_answer \<and>
   dict_item demo_answer ''sources'' = Inr (JArr (map JObj demo_sources)) \<and>
   int (length (map JObj demo_sources)) \<le> 5 \<and>
   agent_chat_default demo_services demo_agent ''What is circularity?'' =
     agent_chat demo_services demo_agent ''What is circularity?'' 5"
proof -
  have honours: "int (length docs) \<le> 5"
    if "requests_post demo_services url hdrs (search_body qe 5) = Inr response"
      and "json response = Inr body"
      and "json_get body ''value'' (JArr []) = Inr results"
      and "py_iter results = Inr docs"
    for url hdrs qe response body results docs
  proof -
    from that(1) have "json response = Inr (JObj [(''value'', JArr demo_documents)])"
      by (auto simp: demo_services_def)
    with that(2-4) have "docs = demo_documents"
      by (auto simp: dict_get_def)
    then show ?thesis by (simp add: demo_documents_def)
  qed
  have good: "snd (agent_chat demo_services demo_agent ''What is circularity?'' 5) =
                Inr demo_answer"
    by (simp add: demo_chat demo_answer_def)
  have bound:
    "(\<forall>env. snd (agent_chat demo_services demo_agent ''What is circularity?'' 5) = Inr env \<longrightarrow>
        (\<exists>xs. dict_item env ''sources'' = Inr (JArr xs) \<and> int (length xs) \<le> 5)) \<and>
     agent_chat_default demo_services demo_agent ''What is circularity?'' =
       agent_chat demo_services demo_agent ''What is circularity?'' 5"
  proof (rule chat_sources_length)
    fix url hdrs qe response body results docs
    assume "requests_post demo_services url hdrs (search_body qe 5) = Inr response"
      and "json response = Inr body"
      and "json_get body ''value'' (JArr []) = Inr results"
      and "py_iter results = Inr docs"
    then show "int (length docs) \<le> 5"
      by (rule honours)
  next
    show "(0::int) \<le> 5" by simp
  qed
  from bound good
  have "\<exists>xs. dict_item demo_answer ''sources'' = Inr (JArr xs) \<and> int (length xs) \<le> 5"
    by blast
  with bound good show ?thesis
    by (auto simp: demo_answer_def dict_item_def)
qed

section \<open>A failing embedding stage\<close>

text \<open>
  The claim that the \<open>error\<close> field is non-empty whenever the embedding stage fails does
  not hold: the field is \<open>str(e)\<close>, and an exception raised without a message (here a
  bare \<open>TimeoutError()\<close>) has the empty text.
\<close>

theorem embedding_failure_with_empty_text:
  "snd (agent_generate_embedding (embed_down (PyException ''TimeoutError'' [])) demo_agent
          ''What is circularity?'') = Inl (PyException ''TimeoutError'' []) \<and>
   snd (agent_chat (embed_down (PyException ''TimeoutError'' [])) demo_agent
          ''What is circularity?'' 5) =
     Inr [(''response'', JStr ''I encountered an error while processing your request: ''),
          (''sources'', JArr []),
          (''query'', JStr ''What is circularity?''),
          (''error'', JStr [])]"
  by (simp add: embed_down_chat embed_down_embedding error_envelope_def)

text \<open>
  C5 (amended). Whenever the embedding stage raises, the dict returned by \<open>chat\<close> has an
  \<open>error\<close> entry holding exactly the exception's text (so it is non-empty precisely
  when that text is) and an empty \<open>sources\<close> list, and no later stage was called; the
  dict is returned whenever the exception is of class \<open>Exception\<close>.
\<close>

theorem chat_embedding_failure:
  assumes "snd (agent_generate_embedding sv ag m) = Inl e"
  shows "(isinstance_Exception e \<longrightarrow> (\<exists>env. snd (agent_chat sv ag m k) = Inr env)) \<and>
         (\<forall>env. snd (agent_chat sv ag m k) = Inr env \<longrightarrow>
            dict_item env ''error'' = Inr (JStr (exc_str e)) \<and>
            dict_item env ''sources'' = Inr (JArr [])) \<and>
         fst (agent_chat sv ag m k) = [EmbeddingsCreate m (embedding_model ag)]"
  by (auto simp: chat_embed_raises [OF assms] error_envelope_def dict_item_def
      agent_generate_embedding_def split: if_splits)

theorem chat_embedding_failure_witness:
  "snd (agent_generate_embedding (embed_down connection_error) demo_agent
          ''What is circularity?'') = Inl connection_error \<and>
   isinstance_Exception connection_error \<and>
   snd (agent_chat (embed_down connection_error) demo_agent ''What is circularity?'' 5) =
     Inr (error_envelope ''What is circularity?'' connection_error) \<and>
   dict_item (error_envelope ''What is circularity?'' connection_error) ''error'' =
     Inr (JStr ''Connection error.'') \<and>
   dict_item (error_envelope ''What is circularity?'' connection_error) ''sources'' =
     Inr (JArr []) \<and>
   fst (agent_chat (embed_down connection_error) demo_agent ''What is circularity?'' 5) =
     [EmbeddingsCreate ''What is circularity?'' ''text-embedding-3-large'']"
proof -
  have e: "snd (agent_generate_embedding (embed_down connection_error) demo_agent
                  ''What is circularity?'') = Inl connection_error"
    by (simp add: embed_down_embedding)
  have caught: "isinstance_Exception connection_error"
    by (simp add: connection_error_def)
  have bad: "snd (agent_chat (embed_down connection_error) demo_agent
                    ''What is circularity?'' 5) =
               Inr (error_envelope ''What is circularity?'' connection_error)"
    by (simp add: embed_down_chat caught)
  note failure = chat_embedding_failure [OF e, of 5]
  from failure [THEN conjunct2, THEN conjunct1, rule_format, OF bad]
  have "dict_item (error_envelope ''What is circularity?'' connection_error) ''error'' =
          Inr (JStr (exc_str connection_error))"
    and "dict_item (error_envelope ''What is circularity?'' connection_error) ''sources'' =
          Inr (JArr [])"
    by simp_all
  moreover from failure [THEN conjunct2, THEN conjunct2]
  have "fst (agent_chat (embed_down connection_error) demo_agent ''What is circularity?'' 5) =
          [EmbeddingsCreate ''What is circularity?'' ''text-embedding-3-large'']"
    by (simp add: demo_agent_def)
  moreover have "exc_str connection_error = ''Connection error.''"
    by (simp add: connection_error_def)
  ultimately show ?thesis
    using e caught bad by simp
qed

section \<open>The empty message\<close>

text \<open>
  C6. The pipeline is to be kept from an empty message, and the interactive loop does
  refuse blank input before it calls \<open>chat\<close>; but \<open>chat\<close> itself has no check, and the
  HTTP handler passes any string on. For the request with the empty message the demo
  deployment is asked for an embedding, a token, a search and a completion, and the
  client is answered with 200.
\<close>

theorem chat_runs_pipeline_on_empty_message:
  "agent_chat demo_services demo_agent [] 5 =
     ([EmbeddingsCreate [] ''text-embedding-3-large'',
       GetToken ''https://search.azure.com/.default'',
       RequestsPost ''https://search.example/indexes/multi-modal-rag-index/docs/search?api-version=2023-11-01''
         [(''Content-Type'', Some ''application/json''),
          (''Authorization'', Some ''Bearer token'')]
         (search_body [1 / 2, 1 / 4] 5),
       ChatCompletionsCreate ''gpt-4o''
         (prompt_messages demo_services demo_agent [] demo_sources) temperature],
      Inr [(''response'', JStr ''BMW pursues circularity.''),
           (''sources'', JArr (map JObj demo_sources)),
           (''query'', JStr [])]) \<and>
   post_chat demo_services demo_agent \<lparr>request_message = [], request_top_k = 5\<rparr> =
     Reply 200 (JObj [(''response'', JStr ''BMW pursues circularity.''),
                      (''sources'', JArr (map JObj demo_sources)),
                      (''query'', JStr [])])"
proof -
  have "fst (agent_search_index demo_services demo_agent [1 / 2, 1 / 4] 5) =
          [GetToken ''https://search.azure.com/.default'',
           RequestsPost ''https://search.example/indexes/multi-modal-rag-index/docs/search?api-version=2023-11-01''
             [(''Content-Type'', Some ''application/json''),
              (''Authorization'', Some ''Bearer token'')]
             (search_body [1 / 2, 1 / 4] 5)]"
    by (simp add: agent_search_index_def and_then_def search_headers_def search_url_def
        demo_services_def demo_agent_def)
  moreover have "fst (agent_generate_response demo_services demo_agent [] demo_sources) =
                   [ChatCompletionsCreate ''gpt-4o''
                      (prompt_messages demo_services demo_agent [] demo_sources) temperature]"
    by (simp add: agent_generate_response_def demo_agent_def)
  ultimately have "agent_chat demo_services demo_agent [] 5 =
     ([EmbeddingsCreate [] ''text-embedding-3-large'',
       GetToken ''https://search.azure.com/.default'',
       RequestsPost ''https://search.example/indexes/multi-modal-rag-index/docs/search?api-version=2023-11-01''
         [(''Content-Type'', Some ''application/json''),
          (''Authorization'', Some ''Bearer token'')]
         (search_body [1 / 2, 1 / 4] 5),
       ChatCompletionsCreate ''gpt-4o''
         (prompt_messages demo_services demo_agent [] demo_sources) temperature],
      Inr [(''response'', JStr ''BMW pursues circularity.''),
           (''sources'', JArr (map JObj demo_sources)),
           (''query'', JStr [])])"
    by (simp add: chat_all_succeed [where qe = "[1 / 2, 1 / 4]" and ctx = demo_sources
          and r = "Some ''BMW pursues circularity.''"] demo_embedding demo_search demo_response
        json_of_content_def)
  moreover have "post_chat demo_services demo_agent
                   \<lparr>request_message = [], request_top_k = 5\<rparr> =
     Reply 200 (JObj [(''response'', JStr ''BMW pursues circularity.''),
                      (''sources'', JArr (map JObj demo_sources)),
                      (''query'', JStr [])])"
    by (simp add: post_chat_def endpoint_chat_def endpoint_try_def demo_chat dict_contains_def
        chat_response_model_def)
  ultimately show ?thesis
    by simp
qed

section \<open>The generation stage\<close>

text \<open>
  C7. For every query and every list of retrieved documents, the generation stage makes
  one call to the chat-completion service, with exactly two messages (the system prompt
  of the agent, then one user message made of the query and the serialised documents)
  and temperature 0.7, and returns the content of the first choice of the completion. A
  failure of the service, or a completion without choices, is raised to the caller.
\<close>

theorem generate_response_contract:
  "agent_generate_response sv ag query context =
     ([ChatCompletionsCreate (chat_model ag)
         [[(''role'', JStr ''system''), (''content'', JStr (system_prompt ag))],
          [(''role'', JStr ''user''),
           (''content'',
              JStr (''The user query is: '' @ query @ [CHR 0x0A] @ ''The context is: '' @
                    json_dumps sv (JArr (map JObj context))))]]
         (7 / 10)],
      case chat_completions_create sv (chat_model ag)
             [[(''role'', JStr ''system''), (''content'', JStr (system_prompt ag))],
              [(''role'', JStr ''user''),
               (''content'',
                  JStr (''The user query is: '' @ query @ [CHR 0x0A] @ ''The context is: '' @
                        json_dumps sv (JArr (map JObj context))))]]
             (7 / 10) of
        Inl e \<Rightarrow> Inl e
      | Inr completion \<Rightarrow>
          (case choices completion of
             [] \<Rightarrow> Inl (PyException ''IndexError'' ''list index out of range'')
           | choice # rest \<Rightarrow> Inr (content (message choice))))"
  by (simp add: agent_generate_response_def prompt_messages_def user_message_text_def
      temperature_def first_item_def split: sum.splits list.splits)

section \<open>The records of the search stage\<close>

lemma search_record_keys:
  "search_record doc = Inr r \<Longrightarrow> map fst r = [''chunk'', ''title'', ''score'']"
  by (auto simp: search_record_def split: sum.splits)

lemma search_records_keys:
  "search_records docs = Inr rs \<Longrightarrow> r \<in> set rs \<Longrightarrow> map fst r = [''chunk'', ''title'', ''score'']"
  by (induction docs arbitrary: rs) (auto split: sum.splits dest: search_record_keys)

lemma search_records_of_objects:
  "search_records (map JObj ds) =
     Inr (map (\<lambda>d. [(''chunk'', case map_of d ''content_text'' of None \<Rightarrow> JStr [] | Some v \<Rightarrow> v),
                     (''title'',
                        case map_of d ''document_title'' of None \<Rightarrow> JStr ''Unknown'' | Some v \<Rightarrow> v),
                     (''score'', case map_of d ''@search.score'' of None \<Rightarrow> JInt 0 | Some v \<Rightarrow> v)])
            ds)"
  by (induction ds) (simp_all add: search_record_def dict_get_def)

text \<open>
  C9. Every record in the list returned by the search stage has exactly the keys
  \<open>chunk\<close>, \<open>title\<close> and \<open>score\<close>, in that order. When the service answers with a list
  of objects the stage cannot fail on a missing field: each object yields a record in
  which an absent \<open>content_text\<close> becomes the empty string, an absent \<open>document_title\<close>
  becomes \<open>Unknown\<close> and an absent \<open>@search.score\<close> becomes 0.
\<close>

theorem search_index_record_shape:
  "(\<forall>ctx. snd (agent_search_index sv ag qe k) = Inr ctx \<longrightarrow>
      (\<forall>r \<in> set ctx. map fst r = [''chunk'', ''title'', ''score''])) \<and>
   (\<forall>hdrs response body ds.
      snd (search_headers sv ag) = Inr hdrs \<longrightarrow>
      requests_post sv (search_url ag) hdrs (search_body qe k) = Inr response \<longrightarrow>
      raise_for_status response = None \<longrightarrow>
      json response = Inr (JObj body) \<longrightarrow>
      dict_get body ''value'' (JArr []) = JArr (map JObj ds) \<longrightarrow>
      snd (agent_search_index sv ag qe k) =
        Inr (map (\<lambda>d. [(''chunk'',
                           case map_of d ''content_text'' of None \<Rightarrow> JStr [] | Some v \<Rightarrow> v),
                        (''title'',
                           case map_of d ''document_title'' of
                             None \<Rightarrow> JStr ''Unknown'' | Some v \<Rightarrow> v),
                        (''score'',
                           case map_of d ''@search.score'' of None \<Rightarrow> JInt 0 | Some v \<Rightarrow> v)])
               ds))"
proof (intro conjI allI impI ballI)
  fix ctx r
  assume "snd (agent_search_index sv ag qe k) = Inr ctx" and "r \<in> set ctx"
  then show "map fst r = [''chunk'', ''title'', ''score'']"
    by (auto elim!: search_index_returns dest: search_records_keys)
next
  fix hdrs response body ds
  assume "snd (search_headers sv ag) = Inr hdrs"
    and "requests_post sv (search_url ag) hdrs (search_body qe k) = Inr response"
    and "raise_for_status response = None"
    and "json response = Inr (JObj body)"
    and "dict_get body ''value'' (JArr []) = JArr (map JObj ds)"
  then show "snd (agent_search_index sv ag qe k) =
               Inr (map (\<lambda>d. [(''chunk'',
                                  case map_of d ''content_text'' of
                                    None \<Rightarrow> JStr [] | Some v \<Rightarrow> v),
                               (''title'',
                                  case map_of d ''document_title'' of
                                    None \<Rightarrow> JStr ''Unknown'' | Some v \<Rightarrow> v),
                               (''score'',
                                  case map_of d ''@search.score'' of
                                    None \<Rightarrow> JInt 0 | Some v \<Rightarrow> v)])
                      ds)"
    by (cases "search_headers sv ag")
       (simp add: agent_search_index_def and_then_def search_results_def
          search_records_of_objects)
qed

theorem search_index_record_shape_witness:
  "snd (agent_search_index demo_services demo_agent [1 / 2, 1 / 4] 5) =
     Inr [[(''chunk'', JStr ''BMW pursues circularity via...''),
           (''title'', JStr ''Sustainability Report 2023''),
           (''score'', JFloat (87 / 100))],
          [(''chunk'', JStr ''Natural rubber sourcing''),
           (''title'', JStr ''Unknown''),
           (''score'', JInt 0)]] \<and>
   map (map fst) demo_sources =
     [[''chunk'', ''title'', ''score''], [''chunk'', ''title'', ''score'']]"
proof -
  let ?hdrs = "[(''Content-Type'', Some ''application/json''),
                (''Authorization'', Some ''Bearer token'')]"
  let ?response = "\<lparr>raise_for_status = None,
                     json = Inr (JObj [(''value'', JArr demo_documents)])\<rparr>"
  have h: "snd (search_headers demo_services demo_agent) = Inr ?hdrs"
    by (simp add: search_headers_def demo_services_def demo_agent_def)
  have p: "requests_post demo_services (search_url demo_agent) ?hdrs
             (search_body [1 / 2, 1 / 4] 5) = Inr ?response"
    by (simp add: demo_services_def)
  have v: "dict_get [(''value'', JArr demo_documents)] ''value'' (JArr []) =
             JArr (map JObj [[(''content_text'', JStr ''BMW pursues circularity via...''),
                              (''document_title'', JStr ''Sustainability Report 2023''),
                              (''@search.score'', JFloat (87 / 100))],
                             [(''content_text'', JStr ''Natural rubber sourcing'')]])"
    by (simp add: dict_get_def demo_documents_def)
  have s: "snd (agent_search_index demo_services demo_agent [1 / 2, 1 / 4] 5) = Inr demo_sources"
    by (rule demo_search)
  have r: "raise_for_status ?response = None"
    and j: "json ?response = Inr (JObj [(''value'', JArr demo_documents)])"
    by simp_all
  note shape = search_index_record_shape [of demo_services demo_agent "[1 / 2, 1 / 4]" 5]
  from shape [THEN conjunct1] s
  have keys: "\<forall>r \<in> set demo_sources. map fst r = [''chunk'', ''title'', ''score'']"
    by blast
  from shape [THEN conjunct2, rule_format, OF h p r j v]
  have "snd (agent_search_index demo_services demo_agent [1 / 2, 1 / 4] 5) =
       Inr [[(''chunk'', JStr ''BMW pursues circularity via...''),
             (''title'', JStr ''Sustainability Report 2023''),
             (''score'', JFloat (87 / 100))],
            [(''chunk'', JStr ''Natural rubber sourcing''),
             (''title'', JStr ''Unknown''),
             (''score'', JInt 0)]]"
    by simp
  with keys show ?thesis
    by (simp add: demo_sources_def)
qed

section \<open>The HTTP endpoint\<close>

text \<open>
  C8. The endpoint is to answer with a server error carrying the error text exactly when
  the dict \<open>chat\<close> returns has an \<open>error\<close> entry, and with the dict otherwise. The code
  misses this twice. A completion whose first choice has the content \<open>None\<close> makes
  \<open>chat\<close> return a dict without \<open>error\<close> whose \<open>response\<close> is \<open>None\<close>; the handler returns
  it, the response model \<open>response: str\<close> rejects it, and the client is answered with
  500 and no error text. And the \<open>HTTPException\<close> raised with the error text as its
  detail is caught by the handler's own \<open>except Exception\<close> and replaced by one whose
  detail is \<open>str\<close> of the first.
\<close>

theorem post_chat_fails_without_error_key:
  "agent_generate_response content_none demo_agent ''What is circularity?'' demo_sources =
     ([ChatCompletionsCreate ''gpt-4o''
         (prompt_messages content_none demo_agent ''What is circularity?'' demo_sources)
         temperature],
      Inr None) \<and>
   snd (agent_chat content_none demo_agent ''What is circularity?'' 5) =
     Inr [(''response'', JNull),
          (''sources'', JArr (map JObj demo_sources)),
          (''query'', JStr ''What is circularity?'')] \<and>
   \<not> dict_contains [(''response'', JNull),
                    (''sources'', JArr (map JObj demo_sources)),
                    (''query'', JStr ''What is circularity?'')] ''error'' \<and>
   endpoint_chat content_none demo_agent
       \<lparr>request_message = ''What is circularity?'', request_top_k = 5\<rparr> =
     Inr [(''response'', JNull),
          (''sources'', JArr (map JObj demo_sources)),
          (''query'', JStr ''What is circularity?'')] \<and>
   post_chat content_none demo_agent
       \<lparr>request_message = ''What is circularity?'', request_top_k = 5\<rparr> =
     Reply 500 (JStr ''Internal Server Error'') \<and>
   endpoint_chat (embed_down connection_error) demo_agent
       \<lparr>request_message = ''What is circularity?'', request_top_k = 5\<rparr> =
     Inl (RaisedHTTP
            (HTTPException 500
               (JStr (http_exception_str (embed_down connection_error)
                        (HTTPException 500 (JStr ''Connection error.''))))))"
proof -
  let ?q = "''What is circularity?''"
  let ?request = "\<lparr>request_message = ?q, request_top_k = 5\<rparr>"
  have e: "snd (agent_generate_embedding content_none demo_agent ?q) = Inr [1 / 2, 1 / 4]"
    by (simp add: agent_generate_embedding_def content_none_def demo_services_def
        first_item_def)
  have s: "snd (agent_search_index content_none demo_agent [1 / 2, 1 / 4] 5) = Inr demo_sources"
    by (simp add: agent_search_index_def and_then_def search_headers_def search_results_def
        content_none_def demo_services_def demo_agent_def dict_get_def demo_search_records)
  have g: "agent_generate_response content_none demo_agent ?q demo_sources =
             ([ChatCompletionsCreate ''gpt-4o''
                 (prompt_messages content_none demo_agent ?q demo_sources) temperature],
              Inr None)"
    by (simp add: agent_generate_response_def content_none_def demo_services_def
        demo_agent_def first_item_def)
  have c: "snd (agent_chat content_none demo_agent ?q 5) =
             Inr [(''response'', JNull),
                  (''sources'', JArr (map JObj demo_sources)),
                  (''query'', JStr ?q)]"
    using e s g
    by (simp add: chat_all_succeed [where qe = "[1 / 2, 1 / 4]" and ctx = demo_sources
          and r = None] json_of_content_def)
  have h: "endpoint_chat content_none demo_agent ?request =
             Inr [(''response'', JNull),
                  (''sources'', JArr (map JObj demo_sources)),
                  (''query'', JStr ?q)]"
    by (simp add: endpoint_chat_def endpoint_try_def c dict_contains_def)
  have p: "post_chat content_none demo_agent ?request =
             Reply 500 (JStr ''Internal Server Error'')"
    by (simp add: post_chat_def h chat_response_model_def)
  have d: "endpoint_chat (embed_down connection_error) demo_agent ?request =
             Inl (RaisedHTTP
                    (HTTPException 500
                       (JStr (http_exception_str (embed_down connection_error)
                                (HTTPException 500 (JStr ''Connection error.''))))))"
    by (simp add: endpoint_chat_def endpoint_try_def embed_down_chat connection_error_def
        error_envelope_def dict_contains_def dict_item_def raised_is_Exception_def
        str_raised_def)
  from g c h p d show ?thesis
    by (simp add: dict_contains_def)
qed

section \<open>The \<open>error\<close> key\<close>

text \<open>
  C10. A run of \<open>chat\<close> in which no stage raised returns a dict with exactly the keys
  \<open>response\<close>, \<open>sources\<close> and \<open>query\<close>; and a returned dict has the key \<open>error\<close> exactly
  when the embedding stage raised, or the search stage raised on the embedding, or the
  generation stage raised on the retrieved documents.
\<close>

theorem chat_error_key_iff_stage_raised:
  "(\<forall>env. snd (agent_chat sv ag m k) = Inr env \<longrightarrow>
      (dict_contains env ''error'' \<longleftrightarrow>
         isl (snd (agent_generate_embedding sv ag m)) \<or>
         (\<exists>qe. snd (agent_generate_embedding sv ag m) = Inr qe \<and>
            (isl (snd (agent_search_index sv ag qe k)) \<or>
             (\<exists>ctx. snd (agent_search_index sv ag qe k) = Inr ctx \<and>
                isl (snd (agent_generate_response sv ag m ctx)))))) \<and>
      (\<not> dict_contains env ''error'' \<longrightarrow>
         map fst env = [''response'', ''sources'', ''query''])) \<and>
   (\<forall>qe ctx r.
      snd (agent_generate_embedding sv ag m) = Inr qe \<longrightarrow>
      snd (agent_search_index sv ag qe k) = Inr ctx \<longrightarrow>
      snd (agent_generate_response sv ag m ctx) = Inr r \<longrightarrow>
      (\<exists>env. snd (agent_chat sv ag m k) = Inr env \<and>
         map fst env = [''response'', ''sources'', ''query'']))"
proof (cases rule: chat_cases [where sv = sv and ag = ag and m = m and k = k])
  case (embed e)
  then show ?thesis
    by (auto simp: chat_embed_raises error_envelope_def dict_contains_def split: if_splits)
next
  case (search qe e)
  then show ?thesis
    by (auto simp: chat_search_raises error_envelope_def dict_contains_def split: if_splits)
next
  case (generate qe ctx e)
  then show ?thesis
    by (auto simp: chat_generate_raises error_envelope_def dict_contains_def split: if_splits)
next
  case (success qe ctx r)
  then show ?thesis
    by (auto simp: chat_all_succeed dict_contains_def)
qed

theorem chat_error_key_iff_stage_raised_witness:
  "snd (agent_chat demo_services demo_agent ''What is circularity?'' 5) = Inr demo_answer \<and>
   \<not> dict_contains demo_answer ''error'' \<and>
   map fst demo_answer = [''response'', ''sources'', ''query''] \<and>
   isl (snd (agent_generate_response (generate_down connection_error) demo_agent
               ''What is circularity?'' demo_sources)) \<and>
   snd (agent_chat (generate_down connection_error) demo_agent ''What is circularity?'' 5) =
     Inr (error_envelope ''What is circularity?'' connection_error) \<and>
   dict_contains (error_envelope ''What is circularity?'' connection_error) ''error''"
proof -
  let ?down = "generate_down connection_error"
  let ?q = "''What is circularity?''"
  have e: "snd (agent_generate_embedding sv demo_agent ?q) = Inr [1 / 2, 1 / 4]"
    if "sv = demo_services \<or> sv = ?down" for sv
    using that
    by (auto simp: agent_generate_embedding_def generate_down_def demo_services_def
        first_item_def)
  have s: "snd (agent_search_index sv demo_agent [1 / 2, 1 / 4] 5) = Inr demo_sources"
    if "sv = demo_services \<or> sv = ?down" for sv
    using that
    by (auto simp: agent_search_index_def and_then_def search_headers_def search_results_def
        generate_down_def demo_services_def demo_agent_def dict_get_def demo_search_records)
  have g: "snd (agent_generate_response demo_services demo_agent ?q demo_sources) =
             Inr (Some ''BMW pursues circularity.'')"
    by (rule demo_response)
  have g': "snd (agent_generate_response ?down demo_agent ?q demo_sources) =
              Inl connection_error"
    by (simp add: agent_generate_response_def generate_down_def demo_services_def)
  have good: "snd (agent_chat demo_services demo_agent ?q 5) = Inr demo_answer"
    by (simp add: demo_chat demo_answer_def)
  have bad: "snd (agent_chat ?down demo_agent ?q 5) = Inr (error_envelope ?q connection_error)"
    using e [of ?down] s [of ?down] g'
    by (simp add: chat_generate_raises [where qe = "[1 / 2, 1 / 4]" and ctx = demo_sources
          and e = connection_error] connection_error_def)
  note key = chat_error_key_iff_stage_raised
  from key [of demo_services demo_agent ?q 5, THEN conjunct1, rule_format, OF good]
  have "\<not> dict_contains demo_answer ''error''"
    and "map fst demo_answer = [''response'', ''sources'', ''query'']"
    using e [of demo_services] s [of demo_services] g by auto
  moreover from key [of ?down demo_agent ?q 5, THEN conjunct1, rule_format, OF bad]
  have "dict_contains (error_envelope ?q connection_error) ''error''"
    using e [of ?down] s [of ?down] g' by auto
  ultimately show ?thesis
    using good bad g' by simp
qed

end
